theory Spec2Isabelle
  imports Main "HOL-Library.Word"
begin

unbundle bit_operations_syntax

section \<open>The file system interface of IOS::HLE::FS\<close>

subsection \<open>Result codes and the result type\<close>

text \<open>
  \<^verbatim>\<open>enum class ResultCode\<close> (lines 19-40 of the interface header): the success marker
  followed by the failure kinds, in the order of the source.
\<close>

datatype ResultCode =
    Success
  | Invalid
  | AccessDenied
  | SuperblockWriteFailed
  | SuperblockInitFailed
  | AlreadyExists
  | NotFound
  | FstFull
  | NoFreeSpace
  | NoFreeHandle
  | TooManyPathComponents
  | InUse
  | BadBlock
  | EccError
  | CriticalEccError
  | FileNotEmpty
  | CheckFailed
  | UnknownError
  | ShortRead



text \<open>
  Machine integers of the header: \<^verbatim>\<open>u8\<close>, \<^verbatim>\<open>u16\<close>, \<^verbatim>\<open>u32\<close> of Common/CommonTypes.h
  and \<^verbatim>\<open>size_t\<close>, which is 64 bits wide on the platforms the emulator builds for.
  A pointer is the address it holds.
\<close>

type_synonym u8 = "8 word"
type_synonym u16 = "16 word"
type_synonym u32 = "32 word"
type_synonym size_t = "64 word"
type_synonym addr = "64 word"

type_synonym Uid = u32
type_synonym Gid = u16
type_synonym Fd = u32

text \<open>
  Modelled from the spec: the class template \<^verbatim>\<open>Common::Result\<close> of Common/Result.h, which
  line 43 instantiates as \<^verbatim>\<open>Result<T> = Common::Result<ResultCode, T>\<close>, is not among the
  sources. The specification describes it as a closed sum: every fallible operation
  returns exactly one of a typed success value or an error kind, never both and never
  neither. \<open>Inl\<close> carries the error kind, \<open>Inr\<close> the success value.
\<close>

type_synonym 'a Result = "ResultCode + 'a"



subsection \<open>Access modes and entry metadata\<close>

text \<open>\<^verbatim>\<open>enum class Mode : u8\<close> (lines 49-55) with its enumerator values.\<close>

datatype Mode = Mode_None | Mode_Read | Mode_Write | Mode_ReadWrite

fun Mode_u8 :: "Mode \<Rightarrow> u8" where
  "Mode_u8 Mode_None = 0"
| "Mode_u8 Mode_Read = 1"
| "Mode_u8 Mode_Write = 2"
| "Mode_u8 Mode_ReadWrite = 3"

type_synonym FileAttribute = u8

text \<open>
  \<^verbatim>\<open>struct Metadata\<close> (lines 66-75). The field \<^verbatim>\<open>size\<close> is named \<open>size_bytes\<close>
  here, since \<open>size\<close> is a constant of HOL.
\<close>

record Metadata =
  uid :: Uid
  gid :: Gid
  attribute :: FileAttribute
  owner_mode :: Mode
  group_mode :: Mode
  other_mode :: Mode
  is_file :: bool
  size_bytes :: u32
  fst_index :: u16

subsection \<open>The abstract engine and the handle\<close>

text \<open>
  \<^verbatim>\<open>class FileSystem\<close> declares its operations pure virtual. An engine is therefore a
  table of operations over some engine state \<open>'s\<close> (which includes the memory the
  caller's buffers live in); each operation takes the state and returns its result with
  the state it leaves. Only the operations the handle calls are listed.
\<close>

record 's FileSystem =
  Close :: "Fd \<Rightarrow> 's \<Rightarrow> ResultCode \<times> 's"
  ReadBytesFromFile :: "Fd \<Rightarrow> addr \<Rightarrow> u32 \<Rightarrow> 's \<Rightarrow> u32 Result \<times> 's"
  WriteBytesToFile :: "Fd \<Rightarrow> addr \<Rightarrow> u32 \<Rightarrow> 's \<Rightarrow> u32 Result \<times> 's"

text \<open>
  \<^verbatim>\<open>class FileHandle\<close> (lines 101-126): the engine it refers to and
  \<^verbatim>\<open>std::optional<Fd> m_fd\<close>, empty when the handle is not bound to a descriptor.
\<close>

record 's FileHandle =
  m_fs :: "'s FileSystem"
  m_fd :: "Fd option"

text \<open>
  \<^verbatim>\<open>FileHandle::Read<T>\<close> (lines 186-196). \<open>sizeof_T\<close> is \<^verbatim>\<open>sizeof(T)\<close>; the product
  \<^verbatim>\<open>sizeof(T) * count\<close> is computed in \<^verbatim>\<open>size_t\<close> and narrowed to \<^verbatim>\<open>u32\<close> by the cast.
  In the comparison the \<^verbatim>\<open>u32\<close> byte count is converted to \<^verbatim>\<open>size_t\<close>.
  Dereferencing an empty \<^verbatim>\<open>m_fd\<close> is undefined behaviour: the model returns \<open>None\<close>.
\<close>

definition FileHandle_Read ::
  "'s FileHandle \<Rightarrow> size_t \<Rightarrow> addr \<Rightarrow> size_t \<Rightarrow> 's \<Rightarrow> (size_t Result \<times> 's) option" where
  "FileHandle_Read h sizeof_T ptr count s =
     (case m_fd h of
        None \<Rightarrow> None
      | Some fd \<Rightarrow>
          (case ReadBytesFromFile (m_fs h) fd ptr (ucast (sizeof_T * count)) s of
             (Inl e, s') \<Rightarrow> Some (Inl e, s')
           | (Inr bytes, s') \<Rightarrow>
               if ucast bytes \<noteq> sizeof_T * count then Some (Inl ShortRead, s')
               else Some (Inr count, s')))"

text \<open>\<^verbatim>\<open>FileHandle::Write<T>\<close> (lines 198-206).\<close>

definition FileHandle_Write ::
  "'s FileHandle \<Rightarrow> size_t \<Rightarrow> addr \<Rightarrow> size_t \<Rightarrow> 's \<Rightarrow> (size_t Result \<times> 's) option" where
  "FileHandle_Write h sizeof_T ptr count s =
     (case m_fd h of
        None \<Rightarrow> None
      | Some fd \<Rightarrow>
          (case WriteBytesToFile (m_fs h) fd ptr (ucast (sizeof_T * count)) s of
             (Inl e, s') \<Rightarrow> Some (Inl e, s')
           | (Inr bytes, s') \<Rightarrow> Some (Inr count, s')))"


subsection \<open>Handle lifetime\<close>

text \<open>
  The constructor, move constructor, destructor and \<^verbatim>\<open>Release\<close> of \<^verbatim>\<open>FileHandle\<close> are
  declared at lines 104-112; their bodies are not among the sources. The header documents
  \<^verbatim>\<open>Release\<close> as "Release the FD so that it is not automatically closed" and
  \<^verbatim>\<open>OpenFile\<close> as "The FD will be automatically closed after use".
\<close>

text \<open>
  Modelled from the spec: the constructor, whose body is missing. The handle is bound to
  \<open>{engine, descriptor id}\<close> at construction (4.3).
\<close>

definition FileHandle_ctor :: "'s FileSystem \<Rightarrow> Fd \<Rightarrow> 's FileHandle" where
  "FileHandle_ctor fs fd = \<lparr>m_fs = fs, m_fd = Some fd\<rparr>"

text \<open>
  Modelled from the spec: the move constructor, whose body is missing. An id is held by at
  most one live handle at a time (3): the new handle takes the binding and the handle
  moved from is left unbound. The result is the pair (new handle, handle moved from).
\<close>

definition FileHandle_move :: "'s FileHandle \<Rightarrow> 's FileHandle \<times> 's FileHandle" where
  "FileHandle_move other = (\<lparr>m_fs = m_fs other, m_fd = m_fd other\<rparr>, other\<lparr>m_fd := None\<rparr>)"

text \<open>
  Modelled from the spec: the destructor, whose body is missing. On destruction, if still
  bound, the handle closes the descriptor exactly once (4.3). A destructor returns
  nothing: the code that \<^verbatim>\<open>Close\<close> answers is dropped.
\<close>

definition FileHandle_dtor :: "'s FileHandle \<Rightarrow> 's \<Rightarrow> 's" where
  "FileHandle_dtor h s =
     (case m_fd h of
        None \<Rightarrow> s
      | Some fd \<Rightarrow> snd (Close (m_fs h) fd s))"

text \<open>
  Modelled from the spec: \<^verbatim>\<open>Release\<close>, whose body is missing. It detaches the binding
  without closing and hands the id to the caller (4.3). An unbound handle has no id to
  hand over: \<open>None\<close>.
\<close>

definition Release :: "'s FileHandle \<Rightarrow> (Fd \<times> 's FileHandle) option" where
  "Release h =
     (case m_fd h of
        None \<Rightarrow> None
      | Some fd \<Rightarrow> Some (fd, h\<lparr>m_fd := None\<rparr>))"

subsection \<open>Permission evaluation and the engine\<close>

text \<open>
  The engine's operations are pure virtual in the header and no implementation is among
  the sources.
\<close>

text \<open>
  Modelled from the spec: the mode that governs an access, part of the missing
  implementation of the engine. If the caller uid equals the entry uid, \<open>owner_mode\<close>
  governs; else if the caller gid equals the entry gid, \<open>group_mode\<close> governs; else
  \<open>other_mode\<close> governs (4.2).
\<close>

definition governing_mode :: "Uid \<Rightarrow> Gid \<Rightarrow> Metadata \<Rightarrow> Mode" where
  "governing_mode caller_uid caller_gid entry =
     (if caller_uid = uid entry then owner_mode entry
      else if caller_gid = gid entry then group_mode entry
      else other_mode entry)"

text \<open>The positions of the bits set in the \<^verbatim>\<open>u8\<close> value of a mode.\<close>

definition Mode_bits :: "Mode \<Rightarrow> nat set" where
  "Mode_bits m = set (filter (bit (Mode_u8 m)) [0..<8])"

text \<open>
  Modelled from the spec: the permission test, part of the missing implementation of the
  engine. The requested access must be a subset of the governing mode's bits (4.2).
\<close>

definition is_permitted :: "Mode \<Rightarrow> Mode \<Rightarrow> bool" where
  "is_permitted requested governing = (Mode_bits requested \<subseteq> Mode_bits governing)"

text \<open>
  Modelled from the spec: the state of the engine, which the header does not declare. A
  descriptor binds an id to \<open>{entry reference, access mode, current offset}\<close> (3);
  entries are addressed by path; descriptor ids are a fixed-capacity resource (5).
\<close>

record Descriptor =
  d_path :: string
  d_mode :: Mode
  d_offset :: u32

record Engine =
  entries :: "string \<rightharpoonup> Metadata"
  handles :: "Fd \<rightharpoonup> Descriptor"
  handle_capacity :: nat

text \<open>
  Modelled from the spec: the choice of a new descriptor id, part of the missing
  implementation of \<^verbatim>\<open>OpenFile\<close>. The specification leaves the choice open; the model
  takes the least id below the capacity that no descriptor holds.
\<close>

definition free_fd :: "Engine \<Rightarrow> Fd option" where
  "free_fd e = find (\<lambda>fd. handles e fd = None) (map of_nat [0..<handle_capacity e])"

text \<open>
  Modelled from the spec: \<^verbatim>\<open>OpenFile(uid, gid, path, mode)\<close>, pure virtual at line 139.
  It resolves the path and fails not-found if it is missing, access-denied if the
  governing permission bits do not permit the requested mode, no-free-handle if the handle
  table is saturated, invalid if the target is a directory; on success it allocates a new
  descriptor (4.2). The checks are in the order of that sentence; the new descriptor
  starts at offset 0 and its id is the one the returned handle is bound to.
\<close>

definition Engine_OpenFile :: "Uid \<Rightarrow> Gid \<Rightarrow> string \<Rightarrow> Mode \<Rightarrow> Engine \<Rightarrow> Fd Result \<times> Engine" where
  "Engine_OpenFile caller_uid caller_gid path mode e =
     (case entries e path of
        None \<Rightarrow> (Inl NotFound, e)
      | Some md \<Rightarrow>
          if \<not> is_permitted mode (governing_mode caller_uid caller_gid md) then (Inl AccessDenied, e)
          else
            (case free_fd e of
               None \<Rightarrow> (Inl NoFreeHandle, e)
             | Some fd \<Rightarrow>
                 if \<not> is_file md then (Inl Invalid, e)
                 else (Inr fd,
                       e\<lparr>handles := (handles e)(fd \<mapsto> \<lparr>d_path = path, d_mode = mode, d_offset = 0\<rparr>)\<rparr>)))"

subsection \<open>A recording engine\<close>

text \<open>
  An engine that records every call it receives and answers each byte-level call with a
  fixed result. The concrete instances below run against it.
\<close>

datatype call = CloseCall Fd | ReadCall Fd addr u32 | WriteCall Fd addr u32

definition scripted_fs :: "u32 Result \<Rightarrow> call list FileSystem" where
  "scripted_fs r =
     \<lparr>Close = (\<lambda>fd log. (Success, log @ [CloseCall fd])),
      ReadBytesFromFile = (\<lambda>fd ptr n log. (r, log @ [ReadCall fd ptr n])),
      WriteBytesToFile = (\<lambda>fd ptr n log. (r, log @ [WriteCall fd ptr n]))\<rparr>"

definition bound_handle :: "u32 Result \<Rightarrow> Fd \<Rightarrow> call list FileHandle" where
  "bound_handle r fd = \<lparr>m_fs = scripted_fs r, m_fd = Some fd\<rparr>"

subsection \<open>A concrete engine state\<close>

text \<open>
  The entry of the specification's example of permission precedence (8): owned by uid 5
  and gid 2, readable by its owner, readable and writable by its group.
\<close>

definition example_entry :: Metadata where
  "example_entry =
     \<lparr>uid = 5, gid = 2, attribute = 0, owner_mode = Mode_Read, group_mode = Mode_ReadWrite,
      other_mode = Mode_None, is_file = True, size_bytes = 0, fst_index = 0\<rparr>"

definition example_engine :: Engine where
  "example_engine =
     \<lparr>entries = Map.empty(''/f'' \<mapsto> example_entry), handles = Map.empty, handle_capacity = 16\<rparr>"

section \<open>Auxiliary facts\<close>

subsection \<open>The narrowing cast of the byte count\<close>

lemma unat_narrowed_request:
  "unat (ucast (sizeof_T * count :: size_t) :: u32) = (unat sizeof_T * unat count) mod 2 ^ 32"
proof -
  have "unat (ucast (sizeof_T * count :: size_t) :: u32) = unat (sizeof_T * count) mod 2 ^ 32"
    by (simp add: unsigned_ucast_eq take_bit_eq_mod)
  also have "\<dots> = ((unat sizeof_T * unat count) mod 2 ^ 64) mod 2 ^ 32"
    by (simp add: unat_word_ariths)
  also have "\<dots> = (unat sizeof_T * unat count) mod 2 ^ 32"
    by (simp add: mod_mod_cancel)
  finally show ?thesis .
qed

lemma narrowed_request_eq:
  "(ucast (sizeof_T * count :: size_t) :: u32) = of_nat (unat sizeof_T * unat count mod 2 ^ 32)"
proof -
  have "unat (of_nat (unat sizeof_T * unat count mod 2 ^ 32) :: u32)
          = unat sizeof_T * unat count mod 2 ^ 32"
    by (simp add: unat_of_nat)
  then have "unat (ucast (sizeof_T * count :: size_t) :: u32)
          = unat (of_nat (unat sizeof_T * unat count mod 2 ^ 32) :: u32)"
    by (simp only: unat_narrowed_request)
  then show ?thesis
    by (simp only: word_unat_eq_iff)
qed

lemma size_t_product_exact:
  assumes "unat sizeof_T * unat count < 2 ^ 32"
  shows "unat (sizeof_T * count :: size_t) = unat sizeof_T * unat count"
proof -
  have "unat sizeof_T * unat count < 2 ^ 64"
    using assms by simp
  then show ?thesis
    by (simp add: unat_word_ariths)
qed

lemma ucast_u32_less: "(ucast (bytes :: u32) :: size_t) < 2 ^ 32"
proof -
  have "unat bytes < 2 ^ 32"
    using unsigned_less [of bytes] by simp
  moreover from this have "unat (ucast bytes :: size_t) = unat bytes"
    by (simp add: unsigned_ucast_eq take_bit_nat_eq_self)
  ultimately show ?thesis
    by (simp add: word_less_nat_alt)
qed

subsection \<open>Result codes and modes\<close>

lemma Mode_bits_simps:
  "Mode_bits Mode_None = {}"
  "Mode_bits Mode_Read = {0}"
  "Mode_bits Mode_Write = {1}"
  "Mode_bits Mode_ReadWrite = {0, 1}"
  by (code_simp)+



lemma is_permitted_AND:
  "is_permitted requested governing \<longleftrightarrow>
     Mode_u8 requested AND Mode_u8 governing = Mode_u8 requested"
  by (cases requested; cases governing) (simp_all add: is_permitted_def Mode_bits_simps)

lemma Engine_OpenFile_denied:
  assumes "entries e path = Some entry"
    and "\<not> is_permitted requested (governing_mode caller_uid caller_gid entry)"
  shows "Engine_OpenFile caller_uid caller_gid path requested e = (Inl AccessDenied, e)"
  using assms by (simp add: Engine_OpenFile_def)

lemma Engine_OpenFile_permitted:
  assumes "entries e path = Some entry"
    and "is_permitted requested (governing_mode caller_uid caller_gid entry)"
  shows "fst (Engine_OpenFile caller_uid caller_gid path requested e) \<noteq> Inl AccessDenied"
  using assms by (simp add: Engine_OpenFile_def split: option.splits)

lemma ucast_size_t_u32: "(ucast (x :: size_t) :: u32) = of_nat (unat x mod 2 ^ 32)"
proof -
  have "unat (ucast x :: u32) = unat x mod 2 ^ 32"
    by (simp add: unsigned_ucast_eq take_bit_eq_mod)
  moreover have "unat (of_nat (unat x mod 2 ^ 32) :: u32) = unat x mod 2 ^ 32"
    by (subst unat_of_nat) simp
  ultimately have "unat (ucast x :: u32) = unat (of_nat (unat x mod 2 ^ 32) :: u32)"
    by simp
  then show ?thesis
    by (simp only: word_unat_eq_iff)
qed




lemma Mode_u8_less: "Mode_u8 m < 4"
  by (cases m) simp_all

lemma Mode_u8_bit0: "bit (Mode_u8 m) 0 \<longleftrightarrow> m = Mode_Read \<or> m = Mode_ReadWrite"
  by (cases m) simp_all

lemma Mode_u8_bit1: "bit (Mode_u8 m) (Suc 0) \<longleftrightarrow> m = Mode_Write \<or> m = Mode_ReadWrite"
  by (cases m) (simp_all add: bit_Suc)

lemma Mode_bits_iff: "n \<in> Mode_bits m \<longleftrightarrow> bit (Mode_u8 m) n"
proof
  assume "n \<in> Mode_bits m"
  then show "bit (Mode_u8 m) n"
    by (simp add: Mode_bits_def)
next
  assume b: "bit (Mode_u8 m) n"
  then have "n < 8"
    using bit_imp_le_length [of "Mode_u8 m" n] by simp
  with b show "n \<in> Mode_bits m"
    by (simp add: Mode_bits_def)
qed

lemma is_permitted_bits:
  "is_permitted requested governing \<longleftrightarrow>
     (\<forall>n. bit (Mode_u8 requested) n \<longrightarrow> bit (Mode_u8 governing) n)"
  by (auto simp: is_permitted_def Mode_bits_iff)

section \<open>The claims\<close>

text \<open>
  C1. Whatever the element size and the count: when the byte-level read called by the
  typed \<^verbatim>\<open>Read\<close> succeeds with fewer bytes than \<^verbatim>\<open>count * sizeof(T)\<close>, the typed read
  returns the short-read kind; when it transfers exactly that many bytes, the typed read
  succeeds with value \<open>count\<close>; when it fails, the typed read returns the same error
  kind. The product is the \<^verbatim>\<open>size_t\<close> product of the source. In each case the engine is
  left in the state the byte-level read left it in.
\<close>

theorem FileHandle_Read_outcomes:
  assumes "m_fd h = Some fd"
  shows "(\<forall>bytes s'. ReadBytesFromFile (m_fs h) fd ptr (ucast (sizeof_T * count)) s = (Inr bytes, s')
              \<and> ucast bytes < sizeof_T * count
            \<longrightarrow> FileHandle_Read h sizeof_T ptr count s = Some (Inl ShortRead, s'))
       \<and> (\<forall>bytes s'. ReadBytesFromFile (m_fs h) fd ptr (ucast (sizeof_T * count)) s = (Inr bytes, s')
              \<and> ucast bytes = sizeof_T * count
            \<longrightarrow> FileHandle_Read h sizeof_T ptr count s = Some (Inr count, s'))
       \<and> (\<forall>e s'. ReadBytesFromFile (m_fs h) fd ptr (ucast (sizeof_T * count)) s = (Inl e, s')
            \<longrightarrow> FileHandle_Read h sizeof_T ptr count s = Some (Inl e, s'))"
  using assms by (auto simp: FileHandle_Read_def)

theorem FileHandle_Read_outcomes_witness:
  "m_fd (bound_handle (Inr 3) 7) = Some 7
   \<and> ReadBytesFromFile (m_fs (bound_handle (Inr 3) 7)) 7 0 (ucast (4 * 1 :: size_t)) []
       = (Inr 3, [ReadCall 7 0 4])
   \<and> (ucast (3 :: u32) :: size_t) < 4 * 1
   \<and> FileHandle_Read (bound_handle (Inr 3) 7) 4 0 1 [] = Some (Inl ShortRead, [ReadCall 7 0 4])
   \<and> m_fd (bound_handle (Inr 4) 7) = Some 7
   \<and> ReadBytesFromFile (m_fs (bound_handle (Inr 4) 7)) 7 0 (ucast (4 * 1 :: size_t)) []
       = (Inr 4, [ReadCall 7 0 4])
   \<and> (ucast (4 :: u32) :: size_t) = 4 * 1
   \<and> FileHandle_Read (bound_handle (Inr 4) 7) 4 0 1 [] = Some (Inr 1, [ReadCall 7 0 4])
   \<and> m_fd (bound_handle (Inl NotFound) 7) = Some 7
   \<and> ReadBytesFromFile (m_fs (bound_handle (Inl NotFound) 7)) 7 0 (ucast (4 * 1 :: size_t)) []
       = (Inl NotFound, [ReadCall 7 0 4])
   \<and> FileHandle_Read (bound_handle (Inl NotFound) 7) 4 0 1 [] = Some (Inl NotFound, [ReadCall 7 0 4])"
proof -
  have b: "m_fd (bound_handle r 7) = Some 7" for r
    by (simp add: bound_handle_def)
  have c: "ReadBytesFromFile (m_fs (bound_handle r 7)) 7 0 (ucast (4 * 1 :: size_t)) []
             = (r, [ReadCall 7 0 4])" for r
    by (simp add: bound_handle_def scripted_fs_def)
  have lt: "(ucast (3 :: u32) :: size_t) < 4 * 1"
    by simp
  have eq: "(ucast (4 :: u32) :: size_t) = 4 * 1"
    by simp
  from FileHandle_Read_outcomes [OF b, of "Inr 3" 0 4 1 "[]"] c [of "Inr 3"] lt
  have short: "FileHandle_Read (bound_handle (Inr 3) 7) 4 0 1 [] = Some (Inl ShortRead, [ReadCall 7 0 4])"
    by blast
  from FileHandle_Read_outcomes [OF b, of "Inr 4" 0 4 1 "[]"] c [of "Inr 4"] eq
  have full: "FileHandle_Read (bound_handle (Inr 4) 7) 4 0 1 [] = Some (Inr 1, [ReadCall 7 0 4])"
    by blast
  from FileHandle_Read_outcomes [OF b, of "Inl NotFound" 0 4 1 "[]"] c [of "Inl NotFound"]
  have err: "FileHandle_Read (bound_handle (Inl NotFound) 7) 4 0 1 [] = Some (Inl NotFound, [ReadCall 7 0 4])"
    by blast
  show ?thesis
    using b c lt eq short full err by simp
qed

text \<open>
  C7, as amended. For a bound handle, the typed \<^verbatim>\<open>Read\<close> and \<^verbatim>\<open>Write\<close> make one call of
  the byte-level primitive, on the engine state they were entered with (hence at the
  descriptor's current offset), with the caller's pointer, and request
  \<^verbatim>\<open>sizeof(T) * count\<close> modulo \<open>2^32\<close> bytes; that is exactly \<^verbatim>\<open>sizeof(T) * count\<close> bytes
  whenever the product is below \<open>2^32\<close>. When the byte-level write succeeds, \<^verbatim>\<open>Write\<close>
  returns the element count.
\<close>

theorem typed_helpers_delegate:
  assumes "m_fd h = Some fd"
  shows "FileHandle_Read h sizeof_T ptr count s =
           (case ReadBytesFromFile (m_fs h) fd ptr (of_nat (unat sizeof_T * unat count mod 2 ^ 32)) s of
              (Inl e, s') \<Rightarrow> Some (Inl e, s')
            | (Inr bytes, s') \<Rightarrow>
                Some (if ucast bytes = sizeof_T * count then Inr count else Inl ShortRead, s'))
       \<and> FileHandle_Write h sizeof_T ptr count s =
           (case WriteBytesToFile (m_fs h) fd ptr (of_nat (unat sizeof_T * unat count mod 2 ^ 32)) s of
              (Inl e, s') \<Rightarrow> Some (Inl e, s')
            | (Inr bytes, s') \<Rightarrow> Some (Inr count, s'))
       \<and> (unat sizeof_T * unat count < 2 ^ 32 \<longrightarrow>
            unat (of_nat (unat sizeof_T * unat count mod 2 ^ 32) :: u32) = unat sizeof_T * unat count
            \<and> unat (sizeof_T * count) = unat sizeof_T * unat count)"
proof (intro conjI impI)
  show "FileHandle_Read h sizeof_T ptr count s =
           (case ReadBytesFromFile (m_fs h) fd ptr (of_nat (unat sizeof_T * unat count mod 2 ^ 32)) s of
              (Inl e, s') \<Rightarrow> Some (Inl e, s')
            | (Inr bytes, s') \<Rightarrow>
                Some (if ucast bytes = sizeof_T * count then Inr count else Inl ShortRead, s'))"
    using assms
    by (simp add: FileHandle_Read_def narrowed_request_eq split: prod.splits sum.splits)
  show "FileHandle_Write h sizeof_T ptr count s =
           (case WriteBytesToFile (m_fs h) fd ptr (of_nat (unat sizeof_T * unat count mod 2 ^ 32)) s of
              (Inl e, s') \<Rightarrow> Some (Inl e, s')
            | (Inr bytes, s') \<Rightarrow> Some (Inr count, s'))"
    using assms
    by (simp add: FileHandle_Write_def narrowed_request_eq split: prod.splits sum.splits)
next
  assume small: "unat sizeof_T * unat count < 2 ^ 32"
  then show "unat (of_nat (unat sizeof_T * unat count mod 2 ^ 32) :: u32) = unat sizeof_T * unat count"
    by (subst unat_of_nat) simp
  from small show "unat (sizeof_T * count) = unat sizeof_T * unat count"
    by (rule size_t_product_exact)
qed

theorem typed_helpers_delegate_witness:
  "m_fd (bound_handle (Inr 8) 7) = Some 7
   \<and> unat (4 :: size_t) * unat (2 :: size_t) < 2 ^ 32
   \<and> unat (of_nat (unat (4 :: size_t) * unat (2 :: size_t) mod 2 ^ 32) :: u32) = 8
   \<and> unat (4 * 2 :: size_t) = 8
   \<and> FileHandle_Read (bound_handle (Inr 8) 7) 4 0 2 [] = Some (Inr 2, [ReadCall 7 0 8])
   \<and> FileHandle_Write (bound_handle (Inr 8) 7) 4 0 2 [] = Some (Inr 2, [WriteCall 7 0 8])"
proof -
  have b: "m_fd (bound_handle (Inr 8) 7) = Some 7"
    by (simp add: bound_handle_def)
  have small: "unat (4 :: size_t) * unat (2 :: size_t) < 2 ^ 32"
    by simp
  have n: "(of_nat (unat (4 :: size_t) * unat (2 :: size_t) mod 2 ^ 32) :: u32) = 8"
    by simp
  note t = typed_helpers_delegate [OF b, of 4 0 2 "[]"]
  from t small have "unat (of_nat (unat (4 :: size_t) * unat (2 :: size_t) mod 2 ^ 32) :: u32) = 8"
    and "unat (4 * 2 :: size_t) = 8"
    by simp_all
  moreover from t have "FileHandle_Read (bound_handle (Inr 8) 7) 4 0 2 [] = Some (Inr 2, [ReadCall 7 0 8])"
    unfolding n by (simp add: bound_handle_def scripted_fs_def)
  moreover from t have "FileHandle_Write (bound_handle (Inr 8) 7) 4 0 2 [] = Some (Inr 2, [WriteCall 7 0 8])"
    unfolding n by (simp add: bound_handle_def scripted_fs_def)
  ultimately show ?thesis
    using b small by simp
qed

text \<open>
  C7 as stated fails: reading 1073741825 elements of 4 bytes is a request for 4294967300
  bytes, and the byte-level primitive is asked for 4.
\<close>

theorem typed_request_counterexample:
  "FileHandle_Read (bound_handle (Inr 4) 7) 4 0 1073741825 [] = Some (Inl ShortRead, [ReadCall 7 0 4])
   \<and> FileHandle_Write (bound_handle (Inr 4) 7) 4 0 1073741825 [] = Some (Inr 1073741825, [WriteCall 7 0 4])
   \<and> unat (4 :: size_t) * unat (1073741825 :: size_t) = 4294967300
   \<and> unat (4 :: u32) \<noteq> unat (4 :: size_t) * unat (1073741825 :: size_t)"
  by (simp add: FileHandle_Read_def FileHandle_Write_def bound_handle_def scripted_fs_def)

text \<open>
  C2. If the caller uid equals the entry uid, the owner mode governs; else if the caller
  gid equals the entry gid, the group mode governs; else the other mode governs. Opening
  an entry with a requested mode whose bits are not all in the governing mode fails with
  access denied and changes nothing; in particular an owner whose owner mode lacks the
  write bit is denied write access whatever the group mode allows.
\<close>

theorem permission_precedence:
  "(caller_uid = uid entry \<longrightarrow> governing_mode caller_uid caller_gid entry = owner_mode entry)
   \<and> (caller_uid \<noteq> uid entry \<and> caller_gid = gid entry \<longrightarrow>
        governing_mode caller_uid caller_gid entry = group_mode entry)
   \<and> (caller_uid \<noteq> uid entry \<and> caller_gid \<noteq> gid entry \<longrightarrow>
        governing_mode caller_uid caller_gid entry = other_mode entry)
   \<and> (entries e path = Some entry
        \<and> \<not> Mode_bits requested \<subseteq> Mode_bits (governing_mode caller_uid caller_gid entry) \<longrightarrow>
        Engine_OpenFile caller_uid caller_gid path requested e = (Inl AccessDenied, e))
   \<and> (entries e path = Some entry \<and> caller_uid = uid entry
        \<and> 1 \<in> Mode_bits requested \<and> 1 \<notin> Mode_bits (owner_mode entry) \<longrightarrow>
        Engine_OpenFile caller_uid caller_gid path requested e = (Inl AccessDenied, e))"
proof (intro conjI impI)
  show "governing_mode caller_uid caller_gid entry = owner_mode entry"
    if "caller_uid = uid entry"
    using that by (simp add: governing_mode_def)
  show "governing_mode caller_uid caller_gid entry = group_mode entry"
    if "caller_uid \<noteq> uid entry \<and> caller_gid = gid entry"
    using that by (simp add: governing_mode_def)
  show "governing_mode caller_uid caller_gid entry = other_mode entry"
    if "caller_uid \<noteq> uid entry \<and> caller_gid \<noteq> gid entry"
    using that by (simp add: governing_mode_def)
  show "Engine_OpenFile caller_uid caller_gid path requested e = (Inl AccessDenied, e)"
    if "entries e path = Some entry
        \<and> \<not> Mode_bits requested \<subseteq> Mode_bits (governing_mode caller_uid caller_gid entry)"
  proof (rule Engine_OpenFile_denied)
    from that show "entries e path = Some entry"
      by simp
    from that show "\<not> is_permitted requested (governing_mode caller_uid caller_gid entry)"
      by (simp add: is_permitted_def)
  qed
  show "Engine_OpenFile caller_uid caller_gid path requested e = (Inl AccessDenied, e)"
    if h: "entries e path = Some entry \<and> caller_uid = uid entry
        \<and> 1 \<in> Mode_bits requested \<and> 1 \<notin> Mode_bits (owner_mode entry)"
  proof -
    from h have "governing_mode caller_uid caller_gid entry = owner_mode entry"
      by (simp add: governing_mode_def)
    with h have "\<not> is_permitted requested (governing_mode caller_uid caller_gid entry)"
      by (auto simp: is_permitted_def)
    moreover from h have "entries e path = Some entry"
      by simp
    ultimately show ?thesis
      by (rule Engine_OpenFile_denied [rotated])
  qed
qed

theorem permission_precedence_witness:
  "(5 :: Uid) = uid example_entry
   \<and> governing_mode 5 2 example_entry = owner_mode example_entry
   \<and> entries example_engine ''/f'' = Some example_entry
   \<and> 1 \<in> Mode_bits Mode_Write \<and> 1 \<notin> Mode_bits (owner_mode example_entry)
   \<and> Mode_bits Mode_Write \<subseteq> Mode_bits (group_mode example_entry)
   \<and> Engine_OpenFile 5 2 ''/f'' Mode_Write example_engine = (Inl AccessDenied, example_engine)
   \<and> (6 :: Uid) \<noteq> uid example_entry \<and> (2 :: Gid) = gid example_entry
   \<and> governing_mode 6 2 example_entry = group_mode example_entry
   \<and> (3 :: Gid) \<noteq> gid example_entry
   \<and> governing_mode 6 3 example_entry = other_mode example_entry
   \<and> \<not> Mode_bits Mode_Read \<subseteq> Mode_bits (governing_mode 6 3 example_entry)
   \<and> Engine_OpenFile 6 3 ''/f'' Mode_Read example_engine = (Inl AccessDenied, example_engine)"
proof -
  note p = permission_precedence [where entry = example_entry and e = example_engine and path = "''/f''"]
  have u: "(5 :: Uid) = uid example_entry" "(6 :: Uid) \<noteq> uid example_entry"
    and g: "(2 :: Gid) = gid example_entry" "(3 :: Gid) \<noteq> gid example_entry"
    by (simp_all add: example_entry_def)
  have f: "entries example_engine ''/f'' = Some example_entry"
    by (simp add: example_engine_def)
  have w: "1 \<in> Mode_bits Mode_Write" "1 \<notin> Mode_bits (owner_mode example_entry)"
    "Mode_bits Mode_Write \<subseteq> Mode_bits (group_mode example_entry)"
    by (simp_all add: example_entry_def Mode_bits_simps)
  from p [of 5 2 Mode_Write] u(1)
  have own: "governing_mode 5 2 example_entry = owner_mode example_entry"
    by blast
  from p [of 5 2 Mode_Write] u(1) f w
  have denied: "Engine_OpenFile 5 2 ''/f'' Mode_Write example_engine = (Inl AccessDenied, example_engine)"
    by blast
  from p [of 6 2 Mode_Write] u(2) g(1)
  have grp: "governing_mode 6 2 example_entry = group_mode example_entry"
    by blast
  from p [of 6 3 Mode_Read] u(2) g(2)
  have oth: "governing_mode 6 3 example_entry = other_mode example_entry"
    by blast
  have r: "\<not> Mode_bits Mode_Read \<subseteq> Mode_bits (governing_mode 6 3 example_entry)"
    unfolding oth by (simp add: example_entry_def Mode_bits_simps)
  from p [of 6 3 Mode_Read] f r
  have denied': "Engine_OpenFile 6 3 ''/f'' Mode_Read example_engine = (Inl AccessDenied, example_engine)"
    by blast
  show ?thesis
    using u g f w own denied grp oth r denied' by simp
qed




text \<open>
  C6. The modes are encoded None = 0, Read = 1, Write = 2, ReadWrite = 3, within two
  bits; bit 0 is set exactly in the modes that allow reading and bit 1 exactly in those
  that allow writing. A requested mode is permitted by a governing mode exactly when every
  bit of the requested mode is a bit of the governing mode (equivalently, when the bitwise
  conjunction of the two is the requested mode), and opening an existing entry fails with
  access denied exactly when the requested mode is not permitted by the governing mode.
\<close>

theorem Mode_encoding:
  "Mode_u8 Mode_None = 0 \<and> Mode_u8 Mode_Read = 1 \<and> Mode_u8 Mode_Write = 2
   \<and> Mode_u8 Mode_ReadWrite = 3
   \<and> Mode_u8 m < 4
   \<and> (bit (Mode_u8 m) 0 \<longleftrightarrow> m = Mode_Read \<or> m = Mode_ReadWrite)
   \<and> (bit (Mode_u8 m) 1 \<longleftrightarrow> m = Mode_Write \<or> m = Mode_ReadWrite)
   \<and> (is_permitted requested governing \<longleftrightarrow>
        (\<forall>n. bit (Mode_u8 requested) n \<longrightarrow> bit (Mode_u8 governing) n))
   \<and> (is_permitted requested governing \<longleftrightarrow>
        Mode_u8 requested AND Mode_u8 governing = Mode_u8 requested)
   \<and> (entries e path = Some entry \<longrightarrow>
        (fst (Engine_OpenFile caller_uid caller_gid path requested e) = Inl AccessDenied
         \<longleftrightarrow> \<not> (\<forall>n. bit (Mode_u8 requested) n \<longrightarrow>
                    bit (Mode_u8 (governing_mode caller_uid caller_gid entry)) n)))"
proof -
  have op: "fst (Engine_OpenFile caller_uid caller_gid path requested e) = Inl AccessDenied
         \<longleftrightarrow> \<not> (\<forall>n. bit (Mode_u8 requested) n \<longrightarrow>
                    bit (Mode_u8 (governing_mode caller_uid caller_gid entry)) n)"
    if found: "entries e path = Some entry"
  proof (cases "is_permitted requested (governing_mode caller_uid caller_gid entry)")
    case True
    with found show ?thesis
      using Engine_OpenFile_permitted [OF found True] by (simp add: is_permitted_bits)
  next
    case False
    with found show ?thesis
      using Engine_OpenFile_denied [OF found False] by (simp add: is_permitted_bits)
  qed
  have "bit (Mode_u8 m) 1 \<longleftrightarrow> m = Mode_Write \<or> m = Mode_ReadWrite"
    using Mode_u8_bit1 [of m] by simp
  with Mode_u8_less [of m] Mode_u8_bit0 [of m] is_permitted_bits [of requested governing]
    is_permitted_AND [of requested governing] op
  show ?thesis
    by simp
qed

theorem Mode_encoding_witness:
  "bit (Mode_u8 Mode_Write) 1 \<and> \<not> bit (Mode_u8 Mode_Read) 1
   \<and> \<not> is_permitted Mode_Write Mode_Read
   \<and> Mode_u8 Mode_Write AND Mode_u8 Mode_Read \<noteq> Mode_u8 Mode_Write
   \<and> is_permitted Mode_Read Mode_ReadWrite
   \<and> Mode_u8 Mode_Read AND Mode_u8 Mode_ReadWrite = Mode_u8 Mode_Read
   \<and> entries example_engine ''/f'' = Some example_entry
   \<and> governing_mode 5 2 example_entry = Mode_Read
   \<and> fst (Engine_OpenFile 5 2 ''/f'' Mode_Write example_engine) = Inl AccessDenied"
proof -
  note t = Mode_encoding [where e = example_engine and path = "''/f''" and entry = example_entry
      and caller_uid = 5 and caller_gid = 2]
  have f: "entries example_engine ''/f'' = Some example_entry"
    by (simp add: example_engine_def)
  have g: "governing_mode 5 2 example_entry = Mode_Read"
    by (simp add: governing_mode_def example_entry_def)
  from t [of Mode_Write Mode_Write Mode_Read] have w: "bit (Mode_u8 Mode_Write) 1"
    by simp
  from t [of Mode_Read Mode_Write Mode_Read] have r: "\<not> bit (Mode_u8 Mode_Read) 1"
    by simp
  from w r have nsub: "\<not> (\<forall>n. bit (Mode_u8 Mode_Write) n \<longrightarrow> bit (Mode_u8 Mode_Read) n)"
    by blast
  from t [of Mode_Write Mode_Write Mode_Read] nsub
  have np: "\<not> is_permitted Mode_Write Mode_Read"
    and na: "Mode_u8 Mode_Write AND Mode_u8 Mode_Read \<noteq> Mode_u8 Mode_Write"
    by blast+
  have a: "Mode_u8 Mode_Read AND Mode_u8 Mode_ReadWrite = Mode_u8 Mode_Read"
    by simp
  from t [of Mode_Read Mode_Read Mode_ReadWrite] a
  have p: "is_permitted Mode_Read Mode_ReadWrite"
    by blast
  from t [of Mode_Write Mode_Write Mode_Read] f nsub
  have d: "fst (Engine_OpenFile 5 2 ''/f'' Mode_Write example_engine) = Inl AccessDenied"
    unfolding g by blast
  show ?thesis
    using w r np na p a f g d by simp
qed

text \<open>
  C8. Destroying a handle that is bound to a descriptor id closes that descriptor, once:
  the engine is left as one call of \<^verbatim>\<open>Close\<close> on the id leaves it, and the recording
  engine records exactly that call. Destroying an unbound handle (released or moved from)
  leaves the engine untouched. \<^verbatim>\<open>Release\<close> of a bound handle returns the id and leaves the
  handle unbound without calling the engine, so destroying it afterwards closes nothing.
  After a move, destroying both handles closes the descriptor as destroying the original
  would have.
\<close>

theorem handle_lifetime:
  "(m_fd h = Some fd \<longrightarrow> FileHandle_dtor h s = snd (Close (m_fs h) fd s))
   \<and> FileHandle_dtor (FileHandle_ctor (scripted_fs r) fd) log = log @ [CloseCall fd]
   \<and> (m_fd h = None \<longrightarrow> FileHandle_dtor h s = s)
   \<and> (m_fd h = Some fd \<longrightarrow>
        Release h = Some (fd, h\<lparr>m_fd := None\<rparr>) \<and> FileHandle_dtor (h\<lparr>m_fd := None\<rparr>) s = s)
   \<and> (Release h = None \<longleftrightarrow> m_fd h = None)
   \<and> fst (FileHandle_move h) = h
   \<and> m_fd (snd (FileHandle_move h)) = None
   \<and> FileHandle_dtor (snd (FileHandle_move h)) s = s
   \<and> FileHandle_dtor (snd (FileHandle_move h)) (FileHandle_dtor (fst (FileHandle_move h)) s)
        = FileHandle_dtor h s"
proof (intro conjI impI)
  show "FileHandle_dtor h s = snd (Close (m_fs h) fd s)" if "m_fd h = Some fd"
    using that by (simp add: FileHandle_dtor_def)
  show "FileHandle_dtor (FileHandle_ctor (scripted_fs r) fd) log = log @ [CloseCall fd]"
    by (simp add: FileHandle_dtor_def FileHandle_ctor_def scripted_fs_def)
  show "FileHandle_dtor h s = s" if "m_fd h = None"
    using that by (simp add: FileHandle_dtor_def)
  show "Release h = Some (fd, h\<lparr>m_fd := None\<rparr>)" if "m_fd h = Some fd"
    using that by (simp add: Release_def)
  show "FileHandle_dtor (h\<lparr>m_fd := None\<rparr>) s = s"
    by (simp add: FileHandle_dtor_def)
  show "Release h = None \<longleftrightarrow> m_fd h = None"
    by (simp add: Release_def split: option.splits)
  show "fst (FileHandle_move h) = h"
    by (simp add: FileHandle_move_def)
  show "m_fd (snd (FileHandle_move h)) = None"
    by (simp add: FileHandle_move_def)
  show "FileHandle_dtor (snd (FileHandle_move h)) s = s"
    by (simp add: FileHandle_move_def FileHandle_dtor_def)
  show "FileHandle_dtor (snd (FileHandle_move h)) (FileHandle_dtor (fst (FileHandle_move h)) s)
        = FileHandle_dtor h s"
    by (simp add: FileHandle_move_def FileHandle_dtor_def split: option.splits)
qed

theorem handle_lifetime_witness:
  "m_fd (bound_handle (Inr 0) 7) = Some 7
   \<and> FileHandle_dtor (bound_handle (Inr 0) 7) [] = [CloseCall 7]
   \<and> Release (bound_handle (Inr 0) 7) = Some (7, (bound_handle (Inr 0) 7)\<lparr>m_fd := None\<rparr>)
   \<and> m_fd ((bound_handle (Inr 0) 7)\<lparr>m_fd := None\<rparr>) = None
   \<and> FileHandle_dtor ((bound_handle (Inr 0) 7)\<lparr>m_fd := None\<rparr>) [] = []
   \<and> FileHandle_dtor (snd (FileHandle_move (bound_handle (Inr 0) 7)))
        (FileHandle_dtor (fst (FileHandle_move (bound_handle (Inr 0) 7))) []) = [CloseCall 7]"
proof -
  have b: "m_fd (bound_handle (Inr 0) 7) = Some 7"
    by (simp add: bound_handle_def)
  have u: "m_fd ((bound_handle (Inr 0) 7)\<lparr>m_fd := None\<rparr>) = None"
    by simp
  have c: "snd (Close (m_fs (bound_handle (Inr 0) 7)) 7 []) = [CloseCall 7]"
    by (simp add: bound_handle_def scripted_fs_def)
  note t = handle_lifetime [where h = "bound_handle (Inr 0) 7" and fd = 7 and s = "[]"]
  from t b c have d: "FileHandle_dtor (bound_handle (Inr 0) 7) [] = [CloseCall 7]"
    by simp
  from t b have r: "Release (bound_handle (Inr 0) 7) = Some (7, (bound_handle (Inr 0) 7)\<lparr>m_fd := None\<rparr>)"
    by blast
  from handle_lifetime [where h = "(bound_handle (Inr 0) 7)\<lparr>m_fd := None\<rparr>" and s = "[]"] u
  have n: "FileHandle_dtor ((bound_handle (Inr 0) 7)\<lparr>m_fd := None\<rparr>) [] = []"
    by blast
  from t have "FileHandle_dtor (snd (FileHandle_move (bound_handle (Inr 0) 7)))
        (FileHandle_dtor (fst (FileHandle_move (bound_handle (Inr 0) 7))) [])
      = FileHandle_dtor (bound_handle (Inr 0) 7) []"
    by blast
  then have m: "FileHandle_dtor (snd (FileHandle_move (bound_handle (Inr 0) 7)))
        (FileHandle_dtor (fst (FileHandle_move (bound_handle (Inr 0) 7))) []) = [CloseCall 7]"
    unfolding d .
  show ?thesis
    using b d r u n m by simp
qed

text \<open>
  C9. When the \<^verbatim>\<open>size_t\<close> product \<^verbatim>\<open>sizeof(T) * count\<close> is at least \<open>2^32\<close>, the typed
  helpers of a bound handle request that product modulo \<open>2^32\<close> from the byte-level
  primitive, which is strictly less than the product. The typed read then never returns
  success: it returns short read whenever the byte-level read succeeds, and the byte-level
  error otherwise. The typed write still returns success with the full count whenever the
  byte-level write succeeds.
\<close>

theorem large_request_truncated:
  assumes "m_fd h = Some fd" and "2 ^ 32 \<le> sizeof_T * count"
  shows "FileHandle_Read h sizeof_T ptr count s =
           (case ReadBytesFromFile (m_fs h) fd ptr (of_nat (unat (sizeof_T * count) mod 2 ^ 32)) s of
              (Inl e, s') \<Rightarrow> Some (Inl e, s')
            | (Inr bytes, s') \<Rightarrow> Some (Inl ShortRead, s'))
     \<and> FileHandle_Write h sizeof_T ptr count s =
           (case WriteBytesToFile (m_fs h) fd ptr (of_nat (unat (sizeof_T * count) mod 2 ^ 32)) s of
              (Inl e, s') \<Rightarrow> Some (Inl e, s')
            | (Inr bytes, s') \<Rightarrow> Some (Inr count, s'))
     \<and> unat (sizeof_T * count) mod 2 ^ 32 < unat (sizeof_T * count)
     \<and> (\<forall>v s'. FileHandle_Read h sizeof_T ptr count s \<noteq> Some (Inr v, s'))"
proof -
  have ne: "ucast bytes \<noteq> sizeof_T * count" for bytes :: u32
  proof
    assume "ucast bytes = sizeof_T * count"
    then have "sizeof_T * count < 2 ^ 32"
      using ucast_u32_less [of bytes] by simp
    with assms(2) show False
      by simp
  qed
  have rd: "FileHandle_Read h sizeof_T ptr count s =
           (case ReadBytesFromFile (m_fs h) fd ptr (of_nat (unat (sizeof_T * count) mod 2 ^ 32)) s of
              (Inl e, s') \<Rightarrow> Some (Inl e, s')
            | (Inr bytes, s') \<Rightarrow> Some (Inl ShortRead, s'))"
    using assms(1) ne
    by (simp add: FileHandle_Read_def ucast_size_t_u32 split: prod.splits sum.splits)
  have wr: "FileHandle_Write h sizeof_T ptr count s =
           (case WriteBytesToFile (m_fs h) fd ptr (of_nat (unat (sizeof_T * count) mod 2 ^ 32)) s of
              (Inl e, s') \<Rightarrow> Some (Inl e, s')
            | (Inr bytes, s') \<Rightarrow> Some (Inr count, s'))"
    using assms(1)
    by (simp add: FileHandle_Write_def ucast_size_t_u32 split: prod.splits sum.splits)
  have "(2 :: nat) ^ 32 \<le> unat (sizeof_T * count)"
    using assms(2) by (simp add: word_le_nat_alt)
  moreover have "unat (sizeof_T * count) mod 2 ^ 32 < (2 :: nat) ^ 32"
    by simp
  ultimately have lt: "unat (sizeof_T * count) mod 2 ^ 32 < unat (sizeof_T * count)"
    by (rule order_less_le_trans [rotated])
  have never: "FileHandle_Read h sizeof_T ptr count s \<noteq> Some (Inr v, s')" for v s'
    unfolding rd by (simp split: prod.splits sum.splits)
  from rd wr lt never show ?thesis
    by blast
qed

theorem large_request_truncated_witness:
  "m_fd (bound_handle (Inr 4) 7) = Some 7
   \<and> (2 ^ 32 :: size_t) \<le> 4 * 1073741825
   \<and> unat (4 * 1073741825 :: size_t) = 4294967300
   \<and> unat (ucast (4 * 1073741825 :: size_t) :: u32) = 4
   \<and> ReadBytesFromFile (m_fs (bound_handle (Inr 4) 7)) 7 0 (ucast (4 * 1073741825 :: size_t)) []
        = (Inr 4, [ReadCall 7 0 4])
   \<and> FileHandle_Read (bound_handle (Inr 4) 7) 4 0 1073741825 [] = Some (Inl ShortRead, [ReadCall 7 0 4])
   \<and> WriteBytesToFile (m_fs (bound_handle (Inr 4) 7)) 7 0 (ucast (4 * 1073741825 :: size_t)) []
        = (Inr 4, [WriteCall 7 0 4])
   \<and> FileHandle_Write (bound_handle (Inr 4) 7) 4 0 1073741825 []
        = Some (Inr 1073741825, [WriteCall 7 0 4])"
proof -
  have b: "m_fd (bound_handle (Inr 4) 7) = Some 7"
    by (simp add: bound_handle_def)
  have big: "(2 ^ 32 :: size_t) \<le> 4 * 1073741825"
    by simp
  have p: "unat (4 * 1073741825 :: size_t) = 4294967300"
    by simp
  have rd: "ReadBytesFromFile (m_fs (bound_handle (Inr 4) 7)) 7 0 (ucast (4 * 1073741825 :: size_t)) []
        = (Inr 4, [ReadCall 7 0 4])"
    by (simp add: bound_handle_def scripted_fs_def)
  have wr: "WriteBytesToFile (m_fs (bound_handle (Inr 4) 7)) 7 0 (ucast (4 * 1073741825 :: size_t)) []
        = (Inr 4, [WriteCall 7 0 4])"
    by (simp add: bound_handle_def scripted_fs_def)
  note t = large_request_truncated [OF b big, of 0 "[]"]
  have n: "unat (ucast (4 * 1073741825 :: size_t) :: u32) = 4"
    by simp
  have n': "(of_nat (unat (4 * 1073741825 :: size_t) mod 2 ^ 32) :: u32) = 4"
    by simp
  from t have r: "FileHandle_Read (bound_handle (Inr 4) 7) 4 0 1073741825 [] = Some (Inl ShortRead, [ReadCall 7 0 4])"
    unfolding n' by (simp add: bound_handle_def scripted_fs_def)
  from t have w: "FileHandle_Write (bound_handle (Inr 4) 7) 4 0 1073741825 []
        = Some (Inr 1073741825, [WriteCall 7 0 4])"
    unfolding n' by (simp add: bound_handle_def scripted_fs_def)
  show ?thesis
    using b big p n rd r wr w by simp
qed

text \<open>
  C10. Whenever the byte-level write called by the typed \<^verbatim>\<open>Write\<close> of a bound handle
  succeeds, with whatever number of bytes written, the typed write returns success with
  value \<open>count\<close>: a write of fewer than \<^verbatim>\<open>sizeof(T) * count\<close> bytes is reported as a full
  success, where the typed read of the same answer reports a short read.
\<close>

theorem Write_reports_full_count:
  assumes "m_fd h = Some fd"
    and "WriteBytesToFile (m_fs h) fd ptr (ucast (sizeof_T * count)) s = (Inr bytes, s')"
  shows "FileHandle_Write h sizeof_T ptr count s = Some (Inr count, s')"
  using assms by (simp add: FileHandle_Write_def)

theorem Write_reports_full_count_witness:
  "m_fd (bound_handle (Inr 3) 7) = Some 7
   \<and> WriteBytesToFile (m_fs (bound_handle (Inr 3) 7)) 7 0 (ucast (4 * 2 :: size_t)) []
        = (Inr 3, [WriteCall 7 0 8])
   \<and> (ucast (3 :: u32) :: size_t) < 4 * 2
   \<and> FileHandle_Write (bound_handle (Inr 3) 7) 4 0 2 [] = Some (Inr 2, [WriteCall 7 0 8])
   \<and> FileHandle_Read (bound_handle (Inr 3) 7) 4 0 2 [] = Some (Inl ShortRead, [ReadCall 7 0 8])"
proof -
  have b: "m_fd (bound_handle (Inr 3) 7) = Some 7"
    by (simp add: bound_handle_def)
  have wr: "WriteBytesToFile (m_fs (bound_handle (Inr 3) 7)) 7 0 (ucast (4 * 2 :: size_t)) []
        = (Inr 3, [WriteCall 7 0 8])"
    by (simp add: bound_handle_def scripted_fs_def)
  have lt: "(ucast (3 :: u32) :: size_t) < 4 * 2"
    by simp
  have rd: "FileHandle_Read (bound_handle (Inr 3) 7) 4 0 2 [] = Some (Inl ShortRead, [ReadCall 7 0 8])"
    by (simp add: FileHandle_Read_def bound_handle_def scripted_fs_def)
  from Write_reports_full_count [OF b wr]
  have "FileHandle_Write (bound_handle (Inr 3) 7) 4 0 2 [] = Some (Inr 2, [WriteCall 7 0 8])" .
  then show ?thesis
    using b wr lt rd by simp
qed

end
